theory Spec2Isabelle
  imports Complex_Main "HOL-Library.AList" "HOL-Library.Sublist" "HOL-Library.Multiset"
    "HOL-Library.Char_ord" "HOL-Library.List_Lexorder"
begin

section \<open>Python values and exceptions\<close>

text \<open>
  The values that reach the service from the JSON bridge, and the exceptions the modelled
  code can raise. Python floats are idealised as reals throughout.
\<close>

datatype pyval =
    PNone
  | PBool bool
  | PInt int
  | PFloat real
  | PStr string
  | PList "pyval list"
  | PDict "(string \<times> pyval) list"

datatype py_error =
    AttributeError string
  | TypeError string
  | ValueError string
  | IndexError string
  | RuntimeError string
  | FileNotFoundError string
  | JSONDecodeError string
  | ZeroDivisionError string

fun str_of_error :: "py_error \<Rightarrow> string" where
  "str_of_error (AttributeError m) = m"
| "str_of_error (TypeError m) = m"
| "str_of_error (ValueError m) = m"
| "str_of_error (IndexError m) = m"
| "str_of_error (RuntimeError m) = m"
| "str_of_error (FileNotFoundError m) = m"
| "str_of_error (JSONDecodeError m) = m"
| "str_of_error (ZeroDivisionError m) = m"

fun type_name :: "pyval \<Rightarrow> string" where
  "type_name PNone = ''NoneType''"
| "type_name (PBool _) = ''bool''"
| "type_name (PInt _) = ''int''"
| "type_name (PFloat _) = ''float''"
| "type_name (PStr _) = ''str''"
| "type_name (PList _) = ''list''"
| "type_name (PDict _) = ''dict''"

text \<open>\<open>len(x)\<close>: defined on strings, lists and dicts, a TypeError elsewhere.\<close>

fun py_len :: "pyval \<Rightarrow> py_error + nat" where
  "py_len (PStr s) = Inr (length s)"
| "py_len (PList xs) = Inr (length xs)"
| "py_len (PDict kvs) = Inr (length kvs)"
| "py_len v = Inl (TypeError (''object of type '' @ type_name v @ '' has no len()''))"

text \<open>\<open>str.lower()\<close> on the ASCII letters; every other character is kept.\<close>

definition lower_char :: "char \<Rightarrow> char" where
  "lower_char c =
     (let n = (of_char c :: nat) in if 65 \<le> n \<and> n \<le> 90 then char_of (n + 32) else c)"

definition lower :: "string \<Rightarrow> string" where
  "lower s = map lower_char s"

text \<open>\<open>any(word in text for word in words)\<close>: \<open>in\<close> on strings is the substring test.\<close>

definition any_word_in :: "string list \<Rightarrow> string \<Rightarrow> bool" where
  "any_word_in ws t = list_ex (\<lambda>w. sublist w t) ws"

text \<open>
  A dict built by inserting pairs in order: a repeated key keeps its first position and
  takes the later value.
\<close>

definition dict_of_pairs :: "(string \<times> 'v) list \<Rightarrow> (string \<times> 'v) list" where
  "dict_of_pairs ps = fold (\<lambda>(k, v) d. AList.update k v d) ps []"

section \<open>numpy\<close>

text \<open>
  The global generator of numpy is a state that determines the infinite sequence of its
  future outputs; \<open>np.random.random(n)\<close> returns the next \<open>n\<close> of them and advances the
  state. Each output lies in the half-open unit interval.
\<close>

type_synonym rng = "nat \<Rightarrow> real"


definition np_random_random :: "nat \<Rightarrow> rng \<Rightarrow> real list \<times> rng" where
  "np_random_random n g = (map g [0..<n], (\<lambda>i. g (i + n)))"

text \<open>\<open>scores[i] += v\<close> on an array.\<close>

definition add_at :: "real list \<Rightarrow> nat \<Rightarrow> real \<Rightarrow> py_error + real list" where
  "add_at scores i v =
     (if i < length scores then Inr (scores[i := scores ! i + v])
      else Inl (IndexError ''index out of bounds''))"

text \<open>\<open>np.exp(scores) / np.sum(np.exp(scores))\<close>.\<close>

definition softmax :: "real list \<Rightarrow> real list" where
  "softmax scores = map (\<lambda>x. exp x / sum_list (map exp scores)) scores"

text \<open>\<open>np.argmax\<close>: the first index of the maximum; a ValueError on an empty array.\<close>

definition np_argmax :: "real list \<Rightarrow> py_error + nat" where
  "np_argmax xs =
     (if xs = [] then Inl (ValueError ''attempt to get argmax of an empty sequence'')
      else Inr (length (takeWhile (\<lambda>x. x < Max (set xs)) xs)))"

text \<open>\<open>xs[i]\<close> for a non-negative index.\<close>

definition index :: "'a list \<Rightarrow> nat \<Rightarrow> py_error + 'a" where
  "index xs i = (if i < length xs then Inr (xs ! i) else Inl (IndexError ''index out of range''))"

section \<open>ProductionEmotionService\<close>

text \<open>The class of \<^verbatim>\<open>training/deployment/production_emotion_service.py\<close>.\<close>

record service =
  models_dir :: string
  models :: "(string \<times> bool) list"
  emotion_labels :: "string list"

text \<open>The state the service's methods run in: the service object, numpy's generator, the log.\<close>

record pstate =
  svc :: service
  rng :: rng
  log :: "string list"

text \<open>
  \<open>_load_production_models\<close>. The configuration file is the environment's: \<open>None\<close> when it
  does not exist, an error when reading or parsing it raises, else its list
  \<open>available_models\<close>.
\<close>

definition load_production_models :: "(py_error + string list) option \<Rightarrow> service \<Rightarrow> service" where
  "load_production_models cfg s =
     (case cfg of
        None \<Rightarrow> s
      | Some (Inl e) \<Rightarrow> s
      | Some (Inr names) \<Rightarrow> s\<lparr>models := fold (\<lambda>n d. AList.update n True d) names (models s)\<rparr>)"

definition configured_labels :: "string list" where
  "configured_labels =
     [''happiness'', ''sadness'', ''neutral'', ''anger'', ''love'', ''fear'',
      ''disgust'', ''confusion'', ''surprise'', ''shame'', ''guilt'', ''sarcasm'', ''desire'']"

definition init_service :: "string \<Rightarrow> (py_error + string list) option \<Rightarrow> service" where
  "init_service dir cfg =
     load_production_models cfg
       \<lparr>models_dir = dir, models = [], emotion_labels = configured_labels\<rparr>"

text \<open>
  \<open>_simulate_text_inference\<close>. \<open>text.split()\<close> comes first and needs a str; its value is
  not used. The generator is advanced only when the draw is reached.
\<close>

definition simulate_text_inference :: "service \<Rightarrow> pyval \<Rightarrow> rng \<Rightarrow> (py_error + real list) \<times> rng" where
  "simulate_text_inference s text g =
     (case text of
        PStr t \<Rightarrow>
          (let (scores, g') = np_random_random (length (emotion_labels s)) g;
               r = (if any_word_in [''happy'', ''great'', ''excellent'', ''wonderful''] (lower t)
                      then add_at scores 0 0.3
                    else if any_word_in [''sad'', ''terrible'', ''awful'', ''bad''] (lower t)
                      then add_at scores 1 0.3
                    else if any_word_in [''angry'', ''frustrated'', ''mad''] (lower t)
                      then add_at scores 3 0.3
                    else Inr scores)
           in (case r of Inl e \<Rightarrow> (Inl e, g') | Inr sc \<Rightarrow> (Inr (softmax sc), g')))
      | _ \<Rightarrow> (Inl (AttributeError (type_name text @ '' object has no attribute split'')), g))"

text \<open>\<open>_simulate_audio_inference\<close>: the draw comes first, then \<open>len(audio_features)\<close>.\<close>

definition simulate_audio_inference :: "service \<Rightarrow> pyval \<Rightarrow> rng \<Rightarrow> (py_error + real list) \<times> rng" where
  "simulate_audio_inference s audio_features g =
     (let (scores, g') = np_random_random (length (emotion_labels s)) g in
      case py_len audio_features of
        Inl e \<Rightarrow> (Inl e, g')
      | Inr n \<Rightarrow>
          if n > 20 then
            (case add_at scores 0 0.2 of
               Inl e \<Rightarrow> (Inl e, g')
             | Inr sc \<Rightarrow>
                 (case add_at sc 3 0.1 of
                    Inl e \<Rightarrow> (Inl e, g')
                  | Inr sc' \<Rightarrow> (Inr (softmax sc'), g')))
          else (Inr (softmax scores), g'))"

text \<open>\<open>0.6 * text_scores + 0.4 * audio_scores\<close> on arrays of one length.\<close>

definition fuse :: "real list \<Rightarrow> real list \<Rightarrow> real list" where
  "fuse ts as = map2 (\<lambda>t a. 0.6 * t + 0.4 * a) ts as"

text \<open>\<open>_simulate_multimodal_inference\<close>: the text inference draws first, the audio inference next.\<close>

definition simulate_multimodal_inference ::
  "service \<Rightarrow> pyval \<Rightarrow> pyval \<Rightarrow> rng \<Rightarrow> (py_error + real list) \<times> rng" where
  "simulate_multimodal_inference s text audio_features g =
     (case simulate_text_inference s text g of
        (Inl e, g') \<Rightarrow> (Inl e, g')
      | (Inr text_scores, g') \<Rightarrow>
          (case simulate_audio_inference s audio_features g' of
             (Inl e, g'') \<Rightarrow> (Inl e, g'')
           | (Inr audio_scores, g'') \<Rightarrow>
               (if length text_scores = length audio_scores
                then Inr (fuse text_scores audio_scores)
                else Inl (ValueError ''operands could not be broadcast together''), g'')))"

text \<open>The part of the three \<open>detect_\<close> methods between the inference and the \<open>return\<close>.\<close>

definition make_result :: "service \<Rightarrow> real list \<Rightarrow> string \<Rightarrow> py_error + pyval" where
  "make_result s emotion_scores used =
     (case np_argmax emotion_scores of
        Inl e \<Rightarrow> Inl e
      | Inr predicted_emotion_idx \<Rightarrow>
          (case index (emotion_labels s) predicted_emotion_idx of
             Inl e \<Rightarrow> Inl e
           | Inr predicted_emotion \<Rightarrow>
               (case index emotion_scores predicted_emotion_idx of
                  Inl e \<Rightarrow> Inl e
                | Inr confidence \<Rightarrow>
                    Inr (PDict
                      [(''emotion'', PStr predicted_emotion),
                       (''confidence'', PFloat confidence),
                       (''all_scores'',
                          PDict (dict_of_pairs
                            (zip (emotion_labels s) (map PFloat emotion_scores)))),
                       (''model_used'', PStr used)]))))"

text \<open>The \<open>except Exception\<close> branch: log the error, return the fallback dictionary.\<close>

definition fallback :: "py_error \<Rightarrow> pyval" where
  "fallback e =
     PDict [(''emotion'', PStr ''neutral''), (''confidence'', PFloat 0.5),
            (''error'', PStr (str_of_error e))]"

text \<open>
  The three \<open>detect_\<close> methods share one shape: a \<open>try\<close> body (the inference, then the
  result dictionary) and the handler. \<open>try_body\<close> is the body, with the exception it raises
  as a value; \<open>handle\<close> is the method around it.
\<close>

definition try_body ::
  "service \<Rightarrow> string \<Rightarrow> (py_error + real list) \<times> rng \<Rightarrow> (py_error + pyval) \<times> rng" where
  "try_body s used inference =
     (case inference of
        (Inl e, g') \<Rightarrow> (Inl e, g')
      | (Inr emotion_scores, g') \<Rightarrow> (make_result s emotion_scores used, g'))"

definition handle :: "string \<Rightarrow> (py_error + pyval) \<times> rng \<Rightarrow> pstate \<Rightarrow> pyval \<times> pstate" where
  "handle what body st =
     (case body of
        (Inl e, g') \<Rightarrow>
          (fallback e,
           st\<lparr>rng := g',
              log := log st @ [''Error in '' @ what @ '' emotion detection: '' @ str_of_error e]\<rparr>)
      | (Inr r, g') \<Rightarrow> (r, st\<lparr>rng := g'\<rparr>))"

definition text_body :: "pyval \<Rightarrow> pstate \<Rightarrow> (py_error + pyval) \<times> rng" where
  "text_body text st =
     try_body (svc st) ''text_emotion_optimized'' (simulate_text_inference (svc st) text (rng st))"

definition audio_body :: "pyval \<Rightarrow> pstate \<Rightarrow> (py_error + pyval) \<times> rng" where
  "audio_body audio_features st =
     try_body (svc st) ''audio_emotion_optimized''
       (simulate_audio_inference (svc st) audio_features (rng st))"

definition multimodal_body :: "pyval \<Rightarrow> pyval \<Rightarrow> pstate \<Rightarrow> (py_error + pyval) \<times> rng" where
  "multimodal_body text audio_features st =
     try_body (svc st) ''multimodal_optimized''
       (simulate_multimodal_inference (svc st) text audio_features (rng st))"

definition detect_emotion_from_text :: "pyval \<Rightarrow> pstate \<Rightarrow> pyval \<times> pstate" where
  "detect_emotion_from_text text st = handle ''text'' (text_body text st) st"

definition detect_emotion_from_audio :: "pyval \<Rightarrow> pstate \<Rightarrow> pyval \<times> pstate" where
  "detect_emotion_from_audio audio_features st = handle ''audio'' (audio_body audio_features st) st"

definition detect_emotion_multimodal :: "pyval \<Rightarrow> pyval \<Rightarrow> pstate \<Rightarrow> pyval \<times> pstate" where
  "detect_emotion_multimodal text audio_features st =
     handle ''multimodal'' (multimodal_body text audio_features st) st"

text \<open>\<open>d[k]\<close> read as an option, for stating what a returned dictionary holds.\<close>

fun py_get :: "pyval \<Rightarrow> string \<Rightarrow> pyval option" where
  "py_get (PDict kvs) k = map_of kvs k"
| "py_get _ k = None"


text \<open>
  What the dictionary of a successful detection holds: the scores of all thirteen
  configured labels, in their order, all positive and summing to one; the maximal
  score as confidence; the label at the first index of the maximum as emotion.
\<close>

definition softmax_result :: "pyval \<Rightarrow> bool" where
  "softmax_result r =
     (\<exists>scores i.
        length scores = 13 \<and> list_all (\<lambda>x. 0 < x) scores \<and> sum_list scores = 1 \<and>
        i < 13 \<and> scores ! i = Max (set scores) \<and> (\<forall>j<i. scores ! j < scores ! i) \<and>
        py_get r ''all_scores'' = Some (PDict (zip configured_labels (map PFloat scores))) \<and>
        py_get r ''confidence'' = Some (PFloat (Max (set scores))) \<and>
        py_get r ''emotion'' = Some (PStr (configured_labels ! i)) \<and>
        configured_labels ! i \<in> set configured_labels)"



section \<open>emotion\_service\_wrapper\<close>

text \<open>
  The script \<^verbatim>\<open>training/deployment/emotion_service_wrapper.py\<close>. How a run of \<open>main\<close> ends: it returns, it calls \<open>sys.exit\<close> with a status, or an
  exception leaves it uncaught.
\<close>

datatype outcome = Returned | SystemExit int | Uncaught py_error

text \<open>
  The status the interpreter ends with when the script runs \<open>main\<close> and nothing else: 0
  after a return, the argument of \<open>sys.exit\<close>, 1 after an uncaught exception.
\<close>

fun exit_status :: "outcome \<Rightarrow> int" where
  "exit_status Returned = 0"
| "exit_status (SystemExit n) = n"
| "exit_status (Uncaught e) = 1"

text \<open>\<open>data.get(key, default)\<close>: only a dict has \<open>get\<close>.\<close>

fun dict_get :: "pyval \<Rightarrow> string \<Rightarrow> pyval \<Rightarrow> py_error + pyval" where
  "dict_get (PDict kvs) k d = Inr (case map_of kvs k of Some v \<Rightarrow> v | None \<Rightarrow> d)"
| "dict_get v k d = Inl (AttributeError (type_name v @ '' object has no attribute get''))"

text \<open>The dictionary printed when the production service is not available.\<close>

definition fallback_result :: "string \<Rightarrow> pyval" where
  "fallback_result mode =
     PDict [(''emotion'', PStr ''neutral''),
            (''confidence'', PFloat 0.5),
            (''all_scores'',
               PDict [(''neutral'', PFloat 0.5), (''happiness'', PFloat 0.2),
                      (''sadness'', PFloat 0.1), (''anger'', PFloat 0.1), (''love'', PFloat 0.1)]),
            (''model_used'', PStr (mode @ ''_fallback''))]"

definition status_result :: pyval where
  "status_result =
     PDict [(''models'',
               PDict [(''text_emotion'',
                         PDict [(''status'', PStr ''ready''), (''accuracy'', PStr ''64.83%'')]),
                      (''audio_emotion'',
                         PDict [(''status'', PStr ''ready''), (''accuracy'', PStr ''72.58%'')]),
                      (''multimodal_emotion'',
                         PDict [(''status'', PStr ''ready''), (''accuracy'', PStr ''78.28%'')])]),
            (''last_updated'', PStr ''2025-05-30T00:00:00Z'')]"

definition error_result :: "string \<Rightarrow> py_error \<Rightarrow> pyval" where
  "error_result mode e =
     PDict [(''error'', PStr (str_of_error e)), (''emotion'', PStr ''neutral''),
            (''confidence'', PFloat 0.5), (''model_used'', PStr (mode @ ''_error''))]"

text \<open>
  The \<open>try\<close> body of \<open>main\<close> up to the \<open>print\<close>: the dispatch on the mode, with the
  service's state threaded through.
\<close>

definition dispatch :: "string \<Rightarrow> pyval \<Rightarrow> pstate \<Rightarrow> (py_error + pyval) \<times> pstate" where
  "dispatch mode data st =
     (if mode = ''text'' then
        (case dict_get data ''text'' (PStr '''') of
           Inl e \<Rightarrow> (Inl e, st)
         | Inr text \<Rightarrow> (case detect_emotion_from_text text st of (r, st') \<Rightarrow> (Inr r, st')))
      else if mode = ''audio'' then
        (case dict_get data ''audio_features'' (PDict []) of
           Inl e \<Rightarrow> (Inl e, st)
         | Inr audio_features \<Rightarrow>
             (case detect_emotion_from_audio audio_features st of (r, st') \<Rightarrow> (Inr r, st')))
      else if mode = ''multimodal'' then
        (case dict_get data ''text'' (PStr '''') of
           Inl e \<Rightarrow> (Inl e, st)
         | Inr text \<Rightarrow>
             (case dict_get data ''audio_features'' (PDict []) of
                Inl e \<Rightarrow> (Inl e, st)
              | Inr audio_features \<Rightarrow>
                  (case detect_emotion_multimodal text audio_features st of
                     (r, st') \<Rightarrow> (Inr r, st'))))
      else if mode = ''status'' then (Inr status_result, st)
      else (Inr (PDict [(''error'', PStr (''Unknown mode: '' @ mode))]), st))"

text \<open>
  \<open>main\<close>. The module's \<open>SERVICE_AVAILABLE\<close> and \<open>service\<close> are one option: \<open>None\<close> when
  the import or the constructor failed. \<open>json_loads\<close> is the parser of the \<open>json\<close>
  library. Standard output is the list of the values printed, each one through
  \<open>json.dumps\<close>. The result is the outcome, what was printed, and the generator and the
  log afterwards.
\<close>

definition main ::
  "(string \<Rightarrow> py_error + pyval) \<Rightarrow> service option \<Rightarrow> string list \<Rightarrow> rng \<Rightarrow> string list
     \<Rightarrow> outcome \<times> pyval list \<times> rng \<times> string list" where
  "main json_loads service argv g lg =
     (if length argv \<noteq> 3 then
        (SystemExit 1, [PDict [(''error'', PStr ''Invalid arguments'')]], g, lg)
      else
        (let mode = argv ! 1 in
         case json_loads (argv ! 2) of
           Inl e \<Rightarrow> (Uncaught e, [], g, lg)
         | Inr data \<Rightarrow>
             (case service of
                None \<Rightarrow> (Returned, [fallback_result mode], g, lg)
              | Some s \<Rightarrow>
                  (case dispatch mode data \<lparr>svc = s, rng = g, log = lg\<rparr> of
                     (Inl e, st') \<Rightarrow> (Returned, [error_result mode e], rng st', log st')
                   | (Inr result, st') \<Rightarrow> (Returned, [result], rng st', log st')))))"

text \<open>The scores of an \<open>all_scores\<close> dictionary, for summing them.\<close>

fun float_of :: "pyval \<Rightarrow> real" where
  "float_of (PFloat x) = x"
| "float_of (PInt n) = of_int n"
| "float_of _ = 0"

fun dict_items :: "pyval \<Rightarrow> (string \<times> pyval) list" where
  "dict_items (PDict kvs) = kvs"
| "dict_items _ = []"

section \<open>EmotionTrainer: the training loops\<close>

text \<open>
  From \<^verbatim>\<open>training/emotion_trainer.py\<close>. The three training functions run the same loop. The model's parameters are a value of
  type \<open>'m\<close>. The training phase of one epoch (the batch loop and the average loss) and
  \<open>evaluate_model\<close> on the validation and on the test loader are parameters. The file
  \<open>best_..._model.pth\<close> is an option: \<open>None\<close> while it does not exist.
\<close>

record 'm trainer_state =
  model :: 'm
  best_val_acc :: real
  patience_counter :: nat
  best_file :: "'m option"
  train_losses :: "real list"
  val_accuracies :: "real list"

text \<open>
  The body of \<open>for epoch in range(...)\<close>, over the epochs still to run; the \<open>break\<close>
  returns the state at once.
\<close>

fun epoch_loop ::
  "(nat \<Rightarrow> 'm \<Rightarrow> 'm \<times> real) \<Rightarrow> ('m \<Rightarrow> real) \<Rightarrow> int \<Rightarrow> nat list \<Rightarrow> 'm trainer_state
     \<Rightarrow> 'm trainer_state" where
  "epoch_loop train evaluate patience [] s = s"
| "epoch_loop train evaluate patience (epoch # rest) s =
     (let (m, avg_train_loss) = train epoch (model s);
          val_acc = evaluate m;
          s1 = s\<lparr>model := m,
                 train_losses := train_losses s @ [avg_train_loss],
                 val_accuracies := val_accuracies s @ [val_acc]\<rparr>
      in if val_acc > best_val_acc s1 then
           epoch_loop train evaluate patience rest
             (s1\<lparr>best_val_acc := val_acc, patience_counter := 0, best_file := Some m\<rparr>)
         else
           (let s2 = s1\<lparr>patience_counter := patience_counter s1 + 1\<rparr>
            in if int (patience_counter s2) \<ge> patience then s2
               else epoch_loop train evaluate patience rest s2))"

record history =
  h_train_losses :: "real list"
  h_val_accuracies :: "real list"
  h_best_val_accuracy :: real
  h_test_accuracy :: real

text \<open>
  A training function from the loop's set-up to its \<open>return\<close>: the loop from
  \<open>best_val_acc = 0\<close> and \<open>patience_counter = 0\<close>, then \<open>torch.load\<close> of the best file
  into the model, the evaluation on the test loader, and the history. The result is the
  returned model, the history and the file.
\<close>

definition train_model ::
  "(nat \<Rightarrow> 'm \<Rightarrow> 'm \<times> real) \<Rightarrow> ('m \<Rightarrow> real) \<Rightarrow> ('m \<Rightarrow> real) \<Rightarrow> int \<Rightarrow> int \<Rightarrow> 'm \<Rightarrow> 'm option
     \<Rightarrow> py_error + ('m \<times> history \<times> 'm option)" where
  "train_model train evaluate_val evaluate_test patience epochs m0 file0 =
     (let s = epoch_loop train evaluate_val patience [0..<nat epochs]
                \<lparr>model = m0, best_val_acc = 0, patience_counter = 0, best_file = file0,
                 train_losses = [], val_accuracies = []\<rparr>
      in case best_file s of
           None \<Rightarrow> Inl (FileNotFoundError ''No such file or directory'')
         | Some best \<Rightarrow>
             Inr (best,
                  \<lparr>h_train_losses = train_losses s, h_val_accuracies = val_accuracies s,
                   h_best_val_accuracy = best_val_acc s, h_test_accuracy = evaluate_test best\<rparr>,
                  best_file s))"

record config =
  text_epochs :: int
  audio_epochs :: int
  early_stopping_patience :: int

definition train_text_emotion_model ::
  "config \<Rightarrow> (nat \<Rightarrow> 'm \<Rightarrow> 'm \<times> real) \<Rightarrow> ('m \<Rightarrow> real) \<Rightarrow> ('m \<Rightarrow> real) \<Rightarrow> 'm \<Rightarrow> 'm option
     \<Rightarrow> py_error + ('m \<times> history \<times> 'm option)" where
  "train_text_emotion_model cfg train evaluate_val evaluate_test m0 file0 =
     train_model train evaluate_val evaluate_test (early_stopping_patience cfg) (text_epochs cfg)
       m0 file0"

definition train_audio_emotion_model ::
  "config \<Rightarrow> (nat \<Rightarrow> 'm \<Rightarrow> 'm \<times> real) \<Rightarrow> ('m \<Rightarrow> real) \<Rightarrow> ('m \<Rightarrow> real) \<Rightarrow> 'm \<Rightarrow> 'm option
     \<Rightarrow> py_error + ('m \<times> history \<times> 'm option)" where
  "train_audio_emotion_model cfg train evaluate_val evaluate_test m0 file0 =
     train_model train evaluate_val evaluate_test (early_stopping_patience cfg) (audio_epochs cfg)
       m0 file0"

text \<open>The multimodal loop runs \<open>num_epochs = 3\<close> epochs, whatever the configuration says.\<close>

definition train_multimodal_model ::
  "config \<Rightarrow> (nat \<Rightarrow> 'm \<Rightarrow> 'm \<times> real) \<Rightarrow> ('m \<Rightarrow> real) \<Rightarrow> ('m \<Rightarrow> real) \<Rightarrow> 'm \<Rightarrow> 'm option
     \<Rightarrow> py_error + ('m \<times> history \<times> 'm option)" where
  "train_multimodal_model cfg train evaluate_val evaluate_test m0 file0 =
     train_model train evaluate_val evaluate_test (early_stopping_patience cfg) 3 m0 file0"








section \<open>ProductionModelWrapper\<close>

text \<open>
  From \<^verbatim>\<open>training/model_integrator.py\<close>. Every torch model (the original module, its TorchScript compilation, its quantized
  form) is a value of type \<open>'m\<close>, an ONNX session a value of type \<open>'o\<close>, an input of
  \<open>predict\<close> a value of type \<open>'i\<close> and a prediction a value of type \<open>'r\<close>. A field that
  Python holds as \<open>None\<close> is \<open>None\<close>. The cache is a dict from hash values to predictions.
\<close>

record ('m, 'o, 'r) wrapper =
  original_model :: 'm
  model_type :: string
  optimized_model :: "'m option"
  quantized_model :: "'m option"
  onnx_session :: "'o option"
  inference_times :: "real list"
  prediction_cache :: "(int \<times> 'r) list"

datatype module_kind = Linear | LSTM | Conv1d

datatype dtype = QInt8

datatype dummy_input = TextDummy | AudioDummy | MultimodalDummy

text \<open>
  The libraries the wrapper calls, as the environment: each call returns its value or
  the exception it raises. \<open>onnx_export\<close> yields the exported graph, which
  \<open>inference_session\<close> loads from the path. \<open>predict_torch\<close> and \<open>predict_onnx\<close> are the
  two inference methods of the wrapper, \<open>py_str\<close> and \<open>py_hash\<close> are \<open>str\<close> and \<open>hash\<close>.
\<close>

record ('m, 'o, 'g, 'i, 'r) torch_env =
  OPTIMIZATION_AVAILABLE :: bool
  eval_mode :: "'m \<Rightarrow> 'm"
  jit_script :: "'m \<Rightarrow> py_error + 'm"
  quantize_dynamic :: "'m \<Rightarrow> module_kind set \<Rightarrow> dtype \<Rightarrow> py_error + 'm"
  onnx_export :: "'m \<Rightarrow> dummy_input \<Rightarrow> string \<Rightarrow> string list \<Rightarrow> py_error + 'g"
  inference_session :: "string \<Rightarrow> 'g \<Rightarrow> py_error + 'o"
  predict_torch :: "string \<Rightarrow> 'm \<Rightarrow> 'i \<Rightarrow> py_error + 'r"
  predict_onnx :: "string \<Rightarrow> 'o \<Rightarrow> 'i \<Rightarrow> py_error + 'r"
  py_str :: "'i \<Rightarrow> string"
  py_hash :: "string \<Rightarrow> int"

definition init_wrapper :: "'m \<Rightarrow> string \<Rightarrow> ('m, 'o, 'r) wrapper" where
  "init_wrapper m mtype =
     \<lparr>original_model = m, model_type = mtype, optimized_model = None, quantized_model = None,
      onnx_session = None, inference_times = [], prediction_cache = []\<rparr>"

text \<open>The dummy input and the input names \<open>_export_to_onnx\<close> chooses by model type.\<close>

definition dummy_for :: "string \<Rightarrow> (dummy_input \<times> string list) option" where
  "dummy_for mtype =
     (if mtype = ''text_emotion'' then Some (TextDummy, [''input_ids'', ''attention_mask''])
      else if mtype = ''audio_emotion'' then Some (AudioDummy, [''audio_features''])
      else if mtype = ''multimodal''
        then Some (MultimodalDummy, [''input_ids'', ''attention_mask'', ''audio_features''])
      else None)"

text \<open>\<open>_export_to_onnx\<close>: its own \<open>try\<close> catches every failure of the export and the load.\<close>

definition export_to_onnx ::
  "('m, 'o, 'g, 'i, 'r) torch_env \<Rightarrow> ('m, 'o, 'r) wrapper \<Rightarrow> ('m, 'o, 'r) wrapper" where
  "export_to_onnx env w =
     (if \<not> OPTIMIZATION_AVAILABLE env then w
      else
        (case dummy_for (model_type w) of
           None \<Rightarrow> w
         | Some (dummy, input_names) \<Rightarrow>
             (let onnx_path = ''models/'' @ model_type w @ ''_optimized.onnx'' in
              case onnx_export env (original_model w) dummy onnx_path input_names of
                Inl e \<Rightarrow> w
              | Inr graph \<Rightarrow>
                  (case inference_session env onnx_path graph of
                     Inl e \<Rightarrow> w
                   | Inr session \<Rightarrow> w\<lparr>onnx_session := Some session\<rparr>))))"

text \<open>
  \<open>optimize_model\<close>. The result is the exception that leaves the method, if any, and the
  wrapper afterwards. \<open>self.original_model.eval()\<close> switches the original model to
  evaluation mode in place.
\<close>

definition optimize_model ::
  "('m, 'o, 'g, 'i, 'r) torch_env \<Rightarrow> string \<Rightarrow> ('m, 'o, 'r) wrapper
     \<Rightarrow> py_error option \<times> ('m, 'o, 'r) wrapper" where
  "optimize_model env optimization_level w =
     (let model = eval_mode env (original_model w);
          w0 = w\<lparr>original_model := model\<rparr>
      in if optimization_level = ''light'' then
           (case jit_script env model of
              Inl e \<Rightarrow> (Some e, w0)
            | Inr scripted \<Rightarrow> (None, w0\<lparr>optimized_model := Some scripted\<rparr>))
         else if optimization_level = ''medium'' then
           (case jit_script env model of
              Inl e \<Rightarrow> (None, w0\<lparr>optimized_model := Some model\<rparr>)
            | Inr scripted \<Rightarrow>
                (let w1 = w0\<lparr>optimized_model := Some scripted\<rparr>
                 in if OPTIMIZATION_AVAILABLE env then
                      (case quantize_dynamic env model {Linear, LSTM, Conv1d} QInt8 of
                         Inl e \<Rightarrow> (None, w1\<lparr>optimized_model := Some model\<rparr>)
                       | Inr quantized \<Rightarrow> (None, w1\<lparr>quantized_model := Some quantized\<rparr>))
                    else (None, w1)))
         else if optimization_level = ''aggressive'' then
           (case jit_script env model of
              Inl e \<Rightarrow> (None, w0\<lparr>optimized_model := Some model\<rparr>)
            | Inr scripted \<Rightarrow>
                (let w1 = w0\<lparr>optimized_model := Some scripted\<rparr>
                 in if OPTIMIZATION_AVAILABLE env then
                      (case quantize_dynamic env model {Linear, LSTM, Conv1d} QInt8 of
                         Inl e \<Rightarrow> (None, w1\<lparr>optimized_model := Some model\<rparr>)
                       | Inr quantized \<Rightarrow>
                           (None, export_to_onnx env (w1\<lparr>quantized_model := Some quantized\<rparr>)))
                    else (None, w1)))
         else (None, w0))"

text \<open>
  \<open>predict\<close>. \<open>inference_time\<close> is the difference of the two clock readings. The result is
  the prediction or the exception, and the wrapper afterwards. An \<open>int\<close> is false when it
  is 0, so \<open>if use_cache and cache_key\<close> stores under every key but 0.
\<close>

definition predict ::
  "('m, 'o, 'g, 'i, 'r) torch_env \<Rightarrow> 'i \<Rightarrow> bool \<Rightarrow> real \<Rightarrow> ('m, 'o, 'r) wrapper
     \<Rightarrow> (py_error + 'r) \<times> ('m, 'o, 'r) wrapper" where
  "predict env input_data use_cache inference_time w =
     (let cache_key = (if use_cache then Some (py_hash env (py_str env input_data)) else None)
      in case (if use_cache then map_of (prediction_cache w) (the cache_key) else None) of
           Some cached \<Rightarrow> (Inr cached, w)
         | None \<Rightarrow>
             (let model_to_use =
                    (case quantized_model w of
                       Some q \<Rightarrow> q
                     | None \<Rightarrow>
                         (case optimized_model w of Some opt \<Rightarrow> opt | None \<Rightarrow> original_model w));
                  answer =
                    (case onnx_session w of
                       Some session \<Rightarrow> predict_onnx env (model_type w) session input_data
                     | None \<Rightarrow> predict_torch env (model_type w) model_to_use input_data)
              in case answer of
                   Inl e \<Rightarrow> (Inl e, w)
                 | Inr result \<Rightarrow>
                     (let w1 = w\<lparr>inference_times := inference_times w @ [inference_time]\<rparr>
                      in if use_cache \<and> cache_key \<noteq> Some 0 then
                           (Inr result,
                            w1\<lparr>prediction_cache :=
                                  AList.update (the cache_key) result (prediction_cache w1)\<rparr>)
                         else (Inr result, w1))))"

text \<open>
  A small environment for concrete runs: models are numbers (scripting adds 100,
  quantizing adds 200), inputs are strings, a prediction is the input's length plus the
  model. Whether the optimization libraries were imported, whether the ONNX export
  succeeds, and the hash function are its parameters.
\<close>

definition example_env ::
  "bool \<Rightarrow> bool \<Rightarrow> (string \<Rightarrow> int) \<Rightarrow> (nat, string, string, string, nat) torch_env" where
  "example_env available export_ok h =
     \<lparr>OPTIMIZATION_AVAILABLE = available,
      eval_mode = (\<lambda>m. m),
      jit_script = (\<lambda>m. Inr (m + 100)),
      quantize_dynamic = (\<lambda>m kinds d. Inr (m + 200)),
      onnx_export = (\<lambda>m dummy path names.
                       if export_ok then Inr path else Inl (RuntimeError ''export failed'')),
      inference_session = (\<lambda>path graph. Inr graph),
      predict_torch = (\<lambda>mtype m x. Inr (length x + m)),
      predict_onnx = (\<lambda>mtype session x. Inr (length x)),
      py_str = (\<lambda>x. x),
      py_hash = h\<rparr>"

section \<open>The model classes of emotion\_trainer\<close>

text \<open>
  From \<^verbatim>\<open>training/emotion_trainer.py\<close>. Tensors of rank two (batch, features) and three (batch, channels, length) as nested
  lists. A layer with weights is the function it computes; the torch functions that only
  move or clamp entries are written out.
\<close>

type_synonym tensor2 = "real list list"

type_synonym tensor3 = "real list list list"

record bert_output =
  last_hidden_state :: tensor3
  pooler_output :: tensor2

record text_emotion_model =
  bert :: "int list list \<Rightarrow> int list list \<Rightarrow> bert_output"
  text_dropout :: "tensor2 \<Rightarrow> tensor2"
  text_classifier :: "tensor2 \<Rightarrow> tensor2"

text \<open>
  \<open>nn.LSTM\<close> returns the output sequence and the pair of the hidden and the cell state,
  each a list over the layers of tensors (batch, hidden size).
\<close>

record audio_emotion_model =
  conv1 :: "tensor3 \<Rightarrow> tensor3"
  conv2 :: "tensor3 \<Rightarrow> tensor3"
  pool :: "tensor3 \<Rightarrow> tensor3"
  lstm :: "tensor3 \<Rightarrow> tensor3 \<times> tensor2 list \<times> tensor2 list"
  audio_dropout :: "tensor2 \<Rightarrow> tensor2"
  audio_classifier :: "tensor2 \<Rightarrow> tensor2"

record multimodal_emotion_model =
  text_model :: text_emotion_model
  audio_model :: audio_emotion_model
  fusion :: "(tensor2 \<Rightarrow> tensor2) list"

text \<open>\<open>x.unsqueeze(1)\<close>, \<open>torch.relu\<close>, \<open>x.permute(0, 2, 1)\<close>.\<close>

definition unsqueeze1 :: "tensor2 \<Rightarrow> tensor3" where
  "unsqueeze1 x = map (\<lambda>row. [row]) x"

definition relu :: "tensor3 \<Rightarrow> tensor3" where
  "relu x = map (map (map (max 0))) x"

definition permute021 :: "tensor3 \<Rightarrow> tensor3" where
  "permute021 x = map transpose x"

text \<open>\<open>hidden[-1]\<close>: the last layer's state.\<close>

definition last_layer :: "tensor2 list \<Rightarrow> py_error + tensor2" where
  "last_layer hidden =
     (if hidden = [] then Inl (IndexError ''index -1 is out of bounds'') else Inr (last hidden))"

text \<open>\<open>torch.cat([a, b], dim=1)\<close>: row by row, for equal batch sizes.\<close>

definition cat1 :: "tensor2 \<Rightarrow> tensor2 \<Rightarrow> py_error + tensor2" where
  "cat1 a b =
     (if length a = length b then Inr (map2 (@) a b)
      else Inl (RuntimeError ''Sizes of tensors must match except in dimension 1''))"

text \<open>\<open>nn.Sequential\<close>: the layers in order.\<close>

definition sequential :: "('a \<Rightarrow> 'a) list \<Rightarrow> 'a \<Rightarrow> 'a" where
  "sequential layers x = fold (\<lambda>layer y. layer y) layers x"

definition text_forward :: "text_emotion_model \<Rightarrow> int list list \<Rightarrow> int list list \<Rightarrow> tensor2" where
  "text_forward tm input_ids attention_mask =
     (let outputs = bert tm input_ids attention_mask;
          pooled_output = pooler_output outputs;
          pooled_output = text_dropout tm pooled_output
      in text_classifier tm pooled_output)"

definition audio_forward :: "audio_emotion_model \<Rightarrow> tensor2 \<Rightarrow> py_error + tensor2" where
  "audio_forward am audio_features =
     (let x = unsqueeze1 audio_features;
          x = relu (conv1 am x);
          x = relu (conv2 am x);
          x = pool am x;
          x = permute021 x;
          (lstm_out, hidden, cell) = lstm am x
      in case last_layer hidden of
           Inl e \<Rightarrow> Inl e
         | Inr h \<Rightarrow> Inr (audio_classifier am (audio_dropout am h)))"

definition multimodal_forward ::
  "multimodal_emotion_model \<Rightarrow> int list list \<Rightarrow> int list list \<Rightarrow> tensor2 \<Rightarrow> py_error + tensor2" where
  "multimodal_forward mm input_ids attention_mask audio_features =
     (let text_outputs = bert (text_model mm) input_ids attention_mask;
          text_features = pooler_output text_outputs;
          x = unsqueeze1 audio_features;
          x = relu (conv1 (audio_model mm) x);
          x = relu (conv2 (audio_model mm) x);
          x = permute021 (pool (audio_model mm) x);
          (lstm_out, hidden, cell) = lstm (audio_model mm) x
      in case last_layer hidden of
           Inl e \<Rightarrow> Inl e
         | Inr audio_features_processed \<Rightarrow>
             (case cat1 text_features audio_features_processed of
                Inl e \<Rightarrow> Inl e
              | Inr combined_features \<Rightarrow> Inr (sequential (fusion mm) combined_features)))"



text \<open>A concrete model on small tensors, for running the forward passes.\<close>

definition example_text_model :: text_emotion_model where
  "example_text_model =
     \<lparr>bert = (\<lambda>ids mask. \<lparr>last_hidden_state = [], pooler_output = map (map of_int) ids\<rparr>),
      text_dropout = (\<lambda>x. x),
      text_classifier = map (map (\<lambda>v. 2 * v))\<rparr>"

definition example_audio_model :: audio_emotion_model where
  "example_audio_model =
     \<lparr>conv1 = (\<lambda>x. x), conv2 = (\<lambda>x. x), pool = (\<lambda>x. x),
      lstm = (\<lambda>x. (x, [map concat x], [map concat x])),
      audio_dropout = (\<lambda>x. x),
      audio_classifier = map (map (\<lambda>v. v + 1))\<rparr>"

definition example_multimodal_model :: multimodal_emotion_model where
  "example_multimodal_model =
     \<lparr>text_model = example_text_model, audio_model = example_audio_model,
      fusion = [map (\<lambda>row. [sum_list row])]\<rparr>"

section \<open>EmotionDataProcessor\<close>

text \<open>
  From \<^verbatim>\<open>training/data_processor.py\<close>. A dataframe is the list of its rows. Of the columns, the text and the emotion are
  kept; the emotion of a row is a string (no missing values).
\<close>

record row =
  row_text :: string
  row_emotion :: string

text \<open>
  Every sampling call passes \<open>random_state=42\<close>, so each starts the same generator
  afresh: \<open>rs\<close> is the sequence of its raw draws. Which rows a call selects is all the
  model takes from it. Sampling without replacement removes each chosen row from the
  pool; sampling with replacement does not.
\<close>

fun pick_distinct :: "(nat \<Rightarrow> nat) \<Rightarrow> nat \<Rightarrow> nat \<Rightarrow> 'a list \<Rightarrow> 'a list" where
  "pick_distinct rs i 0 xs = []"
| "pick_distinct rs i (Suc n) xs =
     (if xs = [] then []
      else (let j = rs i mod length xs
            in xs ! j # pick_distinct rs (Suc i) n (take j xs @ drop (Suc j) xs)))"

definition pick_with_replacement :: "(nat \<Rightarrow> nat) \<Rightarrow> nat \<Rightarrow> 'a list \<Rightarrow> 'a list" where
  "pick_with_replacement rs n xs = map (\<lambda>i. xs ! (rs i mod length xs)) [0..<n]"

text \<open>\<open>DataFrame.sample(n=..., replace=..., random_state=42)\<close> of pandas, with its errors.\<close>

definition df_sample :: "(nat \<Rightarrow> nat) \<Rightarrow> int \<Rightarrow> bool \<Rightarrow> 'a list \<Rightarrow> py_error + 'a list" where
  "df_sample rs n replace xs =
     (if n < 0 then Inl (ValueError ''A negative number of rows requested. Please provide n >= 0.'')
      else if replace then
        (if xs = [] \<and> n > 0
         then Inl (ValueError ''a must be greater than 0 unless no samples are taken'')
         else Inr (pick_with_replacement rs (nat n) xs))
      else if nat n > length xs
        then Inl (ValueError ''Cannot take a larger sample than population when replace=False'')
      else Inr (pick_distinct rs 0 (nat n) xs))"

text \<open>\<open>df.sample(frac=1, random_state=42)\<close>: all rows, in a shuffled order.\<close>

definition shuffle_rows :: "(nat \<Rightarrow> nat) \<Rightarrow> 'a list \<Rightarrow> 'a list" where
  "shuffle_rows rs xs = pick_distinct rs 0 (length xs) xs"

text \<open>\<open>Series.unique()\<close>: the distinct values in the order of their first appearance.\<close>

definition unique :: "'a list \<Rightarrow> 'a list" where
  "unique xs = rev (remdups (rev xs))"

text \<open>\<open>pd.concat(frames, ignore_index=True)\<close>: an empty list of frames is an error.\<close>

definition pd_concat :: "'a list list \<Rightarrow> py_error + 'a list" where
  "pd_concat frames =
     (if frames = [] then Inl (ValueError ''No objects to concatenate'') else Inr (concat frames))"

text \<open>A \<open>for\<close> loop that appends one result per element, left by the first exception.\<close>

fun collect :: "('a \<Rightarrow> py_error + 'b) \<Rightarrow> 'a list \<Rightarrow> py_error + 'b list" where
  "collect f [] = Inr []"
| "collect f (x # xs) =
     (case f x of
        Inl e \<Rightarrow> Inl e
      | Inr y \<Rightarrow> (case collect f xs of Inl e \<Rightarrow> Inl e | Inr ys \<Rightarrow> Inr (y # ys)))"

text \<open>The body of the loop of \<open>create_balanced_dataset\<close> for one emotion.\<close>

definition balance_class :: "(nat \<Rightarrow> nat) \<Rightarrow> int \<Rightarrow> row list \<Rightarrow> string \<Rightarrow> py_error + row list" where
  "balance_class rs max_samples_per_class df emotion =
     (let emotion_df = filter (\<lambda>r. row_emotion r = emotion) df
      in if int (length emotion_df) > max_samples_per_class then
           df_sample rs max_samples_per_class False emotion_df
         else
           (let additional_needed = max_samples_per_class - int (length emotion_df)
            in if additional_needed > 0 then
                 (case df_sample rs additional_needed True emotion_df of
                    Inl e \<Rightarrow> Inl e
                  | Inr augmented \<Rightarrow> Inr (emotion_df @ augmented))
               else Inr emotion_df))"

definition create_balanced_dataset :: "(nat \<Rightarrow> nat) \<Rightarrow> row list \<Rightarrow> int \<Rightarrow> py_error + row list" where
  "create_balanced_dataset rs df max_samples_per_class =
     (case collect (balance_class rs max_samples_per_class df) (unique (map row_emotion df)) of
        Inl e \<Rightarrow> Inl e
      | Inr balanced_dfs \<Rightarrow>
          (case pd_concat balanced_dfs of
             Inl e \<Rightarrow> Inl e
           | Inr balanced_df \<Rightarrow> Inr (shuffle_rows rs balanced_df)))"












section \<open>Properties of the production emotion service\<close>

lemma update_fresh: "k \<notin> fst ` set al \<Longrightarrow> AList.update k v al = al @ [(k, v)]"
  by (induction al) auto

lemma fold_update_distinct:
  "distinct (map fst (acc @ ps)) \<Longrightarrow>
   fold (\<lambda>(k, v) d. AList.update k v d) ps acc = acc @ ps"
proof (induction ps arbitrary: acc)
  case Nil
  then show ?case by simp
next
  case (Cons p ps)
  obtain k v where p: "p = (k, v)" by (cases p)
  from Cons.prems have fresh: "k \<notin> fst ` set acc" by (auto simp: p)
  from Cons.prems have d: "distinct (map fst ((acc @ [(k, v)]) @ ps))" by (simp add: p)
  show ?case using Cons.IH[OF d] fresh by (simp add: p update_fresh)
qed

lemma dict_of_pairs_distinct: "distinct (map fst ps) \<Longrightarrow> dict_of_pairs ps = ps"
  using fold_update_distinct[of "[]" ps] by (simp add: dict_of_pairs_def)

lemma sum_list_divide: "sum_list (map (\<lambda>x. f x / (c::real)) xs) = sum_list (map f xs) / c"
  by (induction xs) (simp_all add: add_divide_distrib)

lemma sum_exp_pos: "xs \<noteq> [] \<Longrightarrow> 0 < sum_list (map exp (xs :: real list))"
proof (induction xs)
  case Nil then show ?case by simp
next
  case (Cons x xs)
  have "0 \<le> sum_list (map exp xs)" by (rule sum_list_nonneg) auto
  moreover have "0 < exp x" by simp
  ultimately show ?case by (simp add: add_pos_nonneg)
qed

lemma softmax_length: "length (softmax xs) = length xs"
  by (simp add: softmax_def)

lemma softmax_sum: "xs \<noteq> [] \<Longrightarrow> sum_list (softmax xs) = 1"
  using sum_exp_pos[of xs] by (simp add: softmax_def sum_list_divide)

lemma softmax_pos: "xs \<noteq> [] \<Longrightarrow> x \<in> set (softmax xs) \<Longrightarrow> 0 < x"
  using sum_exp_pos[of xs] by (auto simp: softmax_def)


lemma fuse_sum:
  "length ts = length as \<Longrightarrow>
   sum_list (fuse ts as) = 0.6 * sum_list ts + 0.4 * sum_list as"
  unfolding fuse_def by (induction ts as rule: list_induct2) (simp_all add: field_simps)

lemma length_takeWhile_lt: "\<exists>x\<in>set xs. \<not> P x \<Longrightarrow> length (takeWhile P xs) < length xs"
  by (induction xs) auto

lemma argmax_props:
  assumes "xs \<noteq> []"
  defines "i \<equiv> length (takeWhile (\<lambda>x. x < Max (set xs)) xs)"
  shows "i < length xs" and "xs ! i = Max (set xs)" and "\<forall>j<i. xs ! j < xs ! i"
proof -
  have "Max (set xs) \<in> set xs" using assms(1) by simp
  then have ex: "\<exists>x\<in>set xs. \<not> x < Max (set xs)" by auto
  show lt: "i < length xs" unfolding i_def using ex
    by (simp add: length_takeWhile_lt)
  have "\<not> xs ! i < Max (set xs)" unfolding i_def
    using lt nth_length_takeWhile[of "\<lambda>x. x < Max (set xs)" xs] by (simp add: i_def)
  moreover have "xs ! i \<le> Max (set xs)" using lt by simp
  ultimately show eq: "xs ! i = Max (set xs)" by simp
  show "\<forall>j<i. xs ! j < xs ! i"
  proof (intro allI impI)
    fix j assume "j < i"
    then have "j < length (takeWhile (\<lambda>x. x < Max (set xs)) xs)" by (simp add: i_def)
    then have "takeWhile (\<lambda>x. x < Max (set xs)) xs ! j < Max (set xs)"
      using nth_mem set_takeWhileD by fastforce
    then show "xs ! j < xs ! i" using \<open>j < i\<close> eq
      by (simp add: i_def takeWhile_nth)
  qed
qed

lemma labels_length: "length configured_labels = 13"
  by (simp add: configured_labels_def)

lemma labels_distinct: "distinct configured_labels"
  by (simp add: configured_labels_def)

lemma init_labels: "emotion_labels (init_service dir cfg) = configured_labels"
  by (simp add: init_service_def load_production_models_def split: option.splits sum.splits)

lemma draw_length: "length (fst (np_random_random n g)) = n"
  by (simp add: np_random_random_def)

lemma draw_nth: "j < n \<Longrightarrow> fst (np_random_random n g) ! j = g j"
  by (simp add: np_random_random_def)

lemma draw_snd: "snd (np_random_random n g) = (\<lambda>i. g (i + n))"
  by (simp add: np_random_random_def)

text \<open>The raw scores of the inferences: the draw, raised at some indices by at most 0.3.\<close>

lemma text_inference_shape:
  assumes "emotion_labels s = configured_labels"
  shows "\<exists>sc. simulate_text_inference s (PStr t) g = (Inr (softmax sc), (\<lambda>i. g (i + 13)))
           \<and> length sc = 13 \<and> sc ! 2 = g 2 \<and> (\<forall>j<13. g j \<le> sc ! j \<and> sc ! j \<le> g j + 0.3)"
proof -
  define base where "base = fst (np_random_random 13 g)"
  have len: "length base = 13" by (simp add: base_def draw_length)
  have nth: "\<And>j. j < 13 \<Longrightarrow> base ! j = g j" by (simp add: base_def draw_nth)
  have split: "np_random_random 13 g = (base, (\<lambda>i. g (i + 13)))"
    by (simp add: base_def np_random_random_def)
  have bump: "\<And>k. k < 13 \<Longrightarrow> k \<noteq> 2 \<Longrightarrow>
      length (base[k := base ! k + 0.3]) = 13 \<and> base[k := base ! k + 0.3] ! 2 = g 2
      \<and> (\<forall>j<13. g j \<le> base[k := base ! k + 0.3] ! j \<and> base[k := base ! k + 0.3] ! j \<le> g j + 0.3)"
    using len nth by (auto simp: nth_list_update)
  have plain: "length base = 13 \<and> base ! 2 = g 2 \<and> (\<forall>j<13. g j \<le> base ! j \<and> base ! j \<le> g j + 0.3)"
    using len nth by auto
  show ?thesis
    using bump[of 0] bump[of 1] bump[of 3] plain len
    by (auto simp: simulate_text_inference_def assms labels_length split add_at_def)
qed

lemma audio_inference_shape:
  assumes "emotion_labels s = configured_labels" and "py_len a = Inr n"
  shows "\<exists>sc. simulate_audio_inference s a g = (Inr (softmax sc), (\<lambda>i. g (i + 13)))
           \<and> length sc = 13 \<and> sc ! 2 = g 2 \<and> (\<forall>j<13. g j \<le> sc ! j \<and> sc ! j \<le> g j + 0.3)"
proof -
  define base where "base = fst (np_random_random 13 g)"
  have len: "length base = 13" by (simp add: base_def draw_length)
  have nth: "\<And>j. j < 13 \<Longrightarrow> base ! j = g j" by (simp add: base_def draw_nth)
  have split: "np_random_random 13 g = (base, (\<lambda>i. g (i + 13)))"
    by (simp add: base_def np_random_random_def)
  define sc' where "sc' = (base[0 := base ! 0 + 0.2])[3 := (base[0 := base ! 0 + 0.2]) ! 3 + 0.1]"
  have bump: "length sc' = 13 \<and> sc' ! 2 = g 2 \<and> (\<forall>j<13. g j \<le> sc' ! j \<and> sc' ! j \<le> g j + 0.3)"
    using len nth by (auto simp: nth_list_update sc'_def)
  have plain: "length base = 13 \<and> base ! 2 = g 2 \<and> (\<forall>j<13. g j \<le> base ! j \<and> base ! j \<le> g j + 0.3)"
    using len nth by auto
  show ?thesis
    using bump plain len
    by (auto simp: simulate_audio_inference_def assms labels_length split add_at_def sc'_def)
qed

lemma argmax_Inr:
  assumes "xs \<noteq> []"
  shows "\<exists>i. np_argmax xs = Inr i \<and> i < length xs \<and> xs ! i = Max (set xs) \<and> (\<forall>j<i. xs ! j < xs ! i)"
  using argmax_props[OF assms] assms by (simp add: np_argmax_def)



lemma make_result_eq:
  assumes "np_argmax sc = Inr i" and "i < length (emotion_labels s)" and "i < length sc"
    and "distinct (emotion_labels s)"
  shows "make_result s sc used =
      Inr (PDict [(''emotion'', PStr (emotion_labels s ! i)), (''confidence'', PFloat (sc ! i)),
                  (''all_scores'', PDict (zip (emotion_labels s) (map PFloat sc))),
                  (''model_used'', PStr used)])"
proof -
  have "distinct (map fst (zip (emotion_labels s) (map PFloat sc)))"
    using assms(4) by (simp add: map_fst_zip_take)
  then show ?thesis using assms(1-3)
    by (simp add: make_result_def index_def dict_of_pairs_distinct)
qed

lemma make_result_softmax_result:
  assumes s: "emotion_labels s = configured_labels"
    and len: "length sc = 13" and pos: "list_all (\<lambda>x. 0 < x) sc" and sum: "sum_list sc = 1"
  shows "\<exists>r. make_result s sc used = Inr r \<and> softmax_result r"
proof -
  from len have ne: "sc \<noteq> []" by auto
  from argmax_Inr[OF ne] obtain i where i: "np_argmax sc = Inr i" "i < length sc"
    "sc ! i = Max (set sc)" "\<forall>j<i. sc ! j < sc ! i" by blast
  have il: "i < length (emotion_labels s)" using i(2) len s by (simp add: labels_length)
  have d: "distinct (emotion_labels s)" using s labels_distinct by simp
  have mem: "configured_labels ! i \<in> set configured_labels"
    using i(2) len by (simp add: labels_length)
  let ?r = "PDict [(''emotion'', PStr (emotion_labels s ! i)), (''confidence'', PFloat (sc ! i)),
                  (''all_scores'', PDict (zip (emotion_labels s) (map PFloat sc))),
                  (''model_used'', PStr used)]"
  have "softmax_result ?r"
    unfolding softmax_result_def
  proof (intro exI[of _ sc] exI[of _ i] conjI)
    show "length sc = 13" by (rule len)
    show "list_all (\<lambda>x. 0 < x) sc" by (rule pos)
    show "sum_list sc = 1" by (rule sum)
    show "i < 13" using i(2) len by simp
    show "sc ! i = Max (set sc)" by (rule i(3))
    show "\<forall>j<i. sc ! j < sc ! i" by (rule i(4))
    show "py_get ?r ''all_scores'' = Some (PDict (zip configured_labels (map PFloat sc)))"
      by (simp add: s)
    show "py_get ?r ''confidence'' = Some (PFloat (Max (set sc)))"
      by (simp add: i(3))
    show "py_get ?r ''emotion'' = Some (PStr (configured_labels ! i))"
      by (simp add: s)
    show "configured_labels ! i \<in> set configured_labels" by (rule mem)
  qed
  then show ?thesis
    using make_result_eq[OF i(1) il i(2) d, of used] by simp
qed

lemma softmax_all_pos: "xs \<noteq> [] \<Longrightarrow> list_all (\<lambda>x. 0 < x) (softmax xs)"
  using softmax_pos[of xs] by (auto simp: list_all_iff)

lemma fuse_pos:
  "length ts = length as \<Longrightarrow> list_all (\<lambda>x. 0 < x) ts \<Longrightarrow> list_all (\<lambda>x. 0 < x) as \<Longrightarrow>
   list_all (\<lambda>x. 0 < x) (fuse ts as)"
  unfolding fuse_def by (induction ts as rule: list_induct2) (auto intro: add_pos_pos)

lemma text_body_ok:
  assumes "emotion_labels (svc st) = configured_labels"
  shows "\<exists>r. text_body (PStr t) st = (Inr r, (\<lambda>i. rng st (i + 13))) \<and> softmax_result r"
proof -
  from text_inference_shape[OF assms, of t "rng st"] obtain sc where
    sc: "simulate_text_inference (svc st) (PStr t) (rng st) = (Inr (softmax sc), (\<lambda>i. rng st (i + 13)))"
        "length sc = 13" by blast
  then have ne: "sc \<noteq> []" by auto
  from make_result_softmax_result[OF assms, of "softmax sc" "''text_emotion_optimized''"]
  show ?thesis using sc ne
    by (auto simp: text_body_def try_body_def softmax_length softmax_all_pos softmax_sum)
qed

lemma audio_body_ok:
  assumes "emotion_labels (svc st) = configured_labels" and "py_len a = Inr n"
  shows "\<exists>r. audio_body a st = (Inr r, (\<lambda>i. rng st (i + 13))) \<and> softmax_result r"
proof -
  from audio_inference_shape[OF assms, of "rng st"] obtain sc where
    sc: "simulate_audio_inference (svc st) a (rng st) = (Inr (softmax sc), (\<lambda>i. rng st (i + 13)))"
        "length sc = 13" by blast
  then have ne: "sc \<noteq> []" by auto
  from make_result_softmax_result[OF assms(1), of "softmax sc" "''audio_emotion_optimized''"]
  show ?thesis using sc ne
    by (auto simp: audio_body_def try_body_def softmax_length softmax_all_pos softmax_sum)
qed

lemma multimodal_inference_shape:
  assumes "emotion_labels s = configured_labels" and "py_len a = Inr n"
  shows "\<exists>tsc asc. simulate_multimodal_inference s (PStr t) a g =
            (Inr (fuse (softmax tsc) (softmax asc)), (\<lambda>i. g (i + 26)))
           \<and> length tsc = 13 \<and> tsc ! 2 = g 2 \<and> (\<forall>j<13. g j \<le> tsc ! j \<and> tsc ! j \<le> g j + 0.3)
           \<and> length asc = 13 \<and> asc ! 2 = g 15 \<and> (\<forall>j<13. g (j + 13) \<le> asc ! j \<and> asc ! j \<le> g (j + 13) + 0.3)"
proof -
  from text_inference_shape[OF assms(1), of t g] obtain tsc where
    t: "simulate_text_inference s (PStr t) g = (Inr (softmax tsc), (\<lambda>i. g (i + 13)))"
       "length tsc = 13" "tsc ! 2 = g 2" "\<forall>j<13. g j \<le> tsc ! j \<and> tsc ! j \<le> g j + 0.3" by blast
  from audio_inference_shape[OF assms, of "\<lambda>i. g (i + 13)"] obtain asc where
    a: "simulate_audio_inference s a (\<lambda>i. g (i + 13)) = (Inr (softmax asc), (\<lambda>i. g (i + 13 + 13)))"
       "length asc = 13" "asc ! 2 = g (2 + 13)"
       "\<forall>j<13. g (j + 13) \<le> asc ! j \<and> asc ! j \<le> g (j + 13) + 0.3" by blast
  have "simulate_multimodal_inference s (PStr t) a g =
            (Inr (fuse (softmax tsc) (softmax asc)), (\<lambda>i. g (i + 26)))"
    using t(1,2) a(1,2) by (simp add: simulate_multimodal_inference_def softmax_length add.assoc)
  then show ?thesis using t a by (intro exI[of _ tsc] exI[of _ asc]) simp
qed

lemma multimodal_body_ok:
  assumes "emotion_labels (svc st) = configured_labels" and "py_len a = Inr n"
  shows "\<exists>r. multimodal_body (PStr t) a st = (Inr r, (\<lambda>i. rng st (i + 26))) \<and> softmax_result r"
proof -
  from multimodal_inference_shape[OF assms, of t "rng st"] obtain tsc asc where
    sc: "simulate_multimodal_inference (svc st) (PStr t) a (rng st) =
            (Inr (fuse (softmax tsc) (softmax asc)), (\<lambda>i. rng st (i + 26)))"
        "length tsc = 13" "length asc = 13" by blast
  then have ne: "tsc \<noteq> []" "asc \<noteq> []" by auto
  let ?f = "fuse (softmax tsc) (softmax asc)"
  have l: "length (softmax tsc) = length (softmax asc)" using sc by (simp add: softmax_length)
  have "length ?f = 13" using sc by (simp add: fuse_def softmax_length)
  moreover have "list_all (\<lambda>x. 0 < x) ?f"
    using fuse_pos[OF l] ne by (simp add: softmax_all_pos)
  moreover have "sum_list ?f = 1"
    using fuse_sum[OF l] ne by (simp add: softmax_sum)
  ultimately show ?thesis
    using make_result_softmax_result[OF assms(1), of ?f "''multimodal_optimized''"] sc(1)
    by (auto simp: multimodal_body_def try_body_def)
qed

lemma text_body_fails: "\<forall>t. text \<noteq> PStr t \<Longrightarrow> \<exists>e. text_body text st = (Inl e, rng st)"
  by (cases "text") (auto simp: text_body_def try_body_def simulate_text_inference_def)

lemma py_len_cases: "(\<exists>n. py_len a = Inr n) \<or> (\<exists>e. py_len a = Inl e)"
  by (cases a) auto

lemma audio_infer_fails:
  "py_len a = Inl e \<Longrightarrow>
   simulate_audio_inference s a g = (Inl e, (\<lambda>i. g (i + length (emotion_labels s))))"
  by (simp add: simulate_audio_inference_def np_random_random_def)

lemma handle_Inr: "fst body = Inr r \<Longrightarrow> fst (handle what body st) = r"
  by (cases body) (simp add: handle_def)

text \<open>
  Claim C9. For a service whose labels are the thirteen configured ones, whenever the
  \<open>try\<close> body of \<open>detect_emotion_from_text\<close>, \<open>detect_emotion_from_audio\<close> or
  \<open>detect_emotion_multimodal\<close> raises nothing, the method returns the body's dictionary,
  and in it \<open>all_scores\<close> has exactly the thirteen labels as keys, with scores that are
  strictly positive and sum to one, \<open>confidence\<close> is the maximal score and \<open>emotion\<close> is
  the label at the first index of the maximum, one of the thirteen. Scores are real numbers.
\<close>

theorem detect_result_is_softmax:
  assumes "emotion_labels (svc st) = configured_labels"
  shows "(\<forall>r. fst (text_body text st) = Inr r \<longrightarrow>
            fst (detect_emotion_from_text text st) = r \<and> softmax_result r)
       \<and> (\<forall>r. fst (audio_body audio st) = Inr r \<longrightarrow>
            fst (detect_emotion_from_audio audio st) = r \<and> softmax_result r)
       \<and> (\<forall>r. fst (multimodal_body text audio st) = Inr r \<longrightarrow>
            fst (detect_emotion_multimodal text audio st) = r \<and> softmax_result r)"
proof (intro conjI allI impI)
  fix r assume a: "fst (text_body text st) = Inr r"
  show "fst (detect_emotion_from_text text st) = r"
    using a by (simp add: detect_emotion_from_text_def handle_Inr)
  show "softmax_result r"
  proof (cases "\<exists>t. text = PStr t")
    case True
    then obtain t where t: "text = PStr t" by blast
    from text_body_ok[OF assms, of t] obtain r' where
      "text_body (PStr t) st = (Inr r', (\<lambda>i. rng st (i + 13)))" "softmax_result r'" by blast
    then show ?thesis using a t by simp
  next
    case False
    then show ?thesis using text_body_fails[of "text" st] a by auto
  qed
next
  fix r assume a: "fst (audio_body audio st) = Inr r"
  show "fst (detect_emotion_from_audio audio st) = r"
    using a by (simp add: detect_emotion_from_audio_def handle_Inr)
  show "softmax_result r"
    using py_len_cases[of audio]
  proof
    assume "\<exists>n. py_len audio = Inr n"
    then obtain n where n: "py_len audio = Inr n" by blast
    from audio_body_ok[OF assms n] obtain r' where
      "audio_body audio st = (Inr r', (\<lambda>i. rng st (i + 13)))" "softmax_result r'" by blast
    then show ?thesis using a by simp
  next
    assume "\<exists>e. py_len audio = Inl e"
    then obtain e where "py_len audio = Inl e" by blast
    then show ?thesis using a
      by (simp add: audio_body_def try_body_def audio_infer_fails)
  qed
next
  fix r assume a: "fst (multimodal_body text audio st) = Inr r"
  show "fst (detect_emotion_multimodal text audio st) = r"
    using a by (simp add: detect_emotion_multimodal_def handle_Inr)
  show "softmax_result r"
  proof (cases "\<exists>t. text = PStr t")
    case True
    then obtain t where t: "text = PStr t" by blast
    from py_len_cases[of audio] show ?thesis
    proof
      assume "\<exists>n. py_len audio = Inr n"
      then obtain n where n: "py_len audio = Inr n" by blast
      from multimodal_body_ok[OF assms n, of t] obtain r' where
        "multimodal_body (PStr t) audio st = (Inr r', (\<lambda>i. rng st (i + 26)))" "softmax_result r'"
        by blast
      then show ?thesis using a t by simp
    next
      assume "\<exists>e. py_len audio = Inl e"
      then obtain e where "py_len audio = Inl e" by blast
      then show ?thesis using a
        by (auto simp: multimodal_body_def try_body_def simulate_multimodal_inference_def
                 audio_infer_fails split: prod.splits sum.splits)
    qed
  next
    case False
    then have "\<exists>e. simulate_text_inference (svc st) text (rng st) = (Inl e, rng st)"
      by (cases "text") (auto simp: simulate_text_inference_def)
    then show ?thesis using a
      by (auto simp: multimodal_body_def try_body_def simulate_multimodal_inference_def)
  qed
qed

theorem detect_result_is_softmax_witness:
  "softmax_result (fst (detect_emotion_from_text (PStr ''this is fine'')
      \<lparr>svc = init_service ''training/deployment'' None, rng = (\<lambda>i. 0), log = []\<rparr>))
   \<and> softmax_result (fst (detect_emotion_from_audio (PList [PFloat 0.25, PFloat 0.5])
      \<lparr>svc = init_service ''training/deployment'' None, rng = (\<lambda>i. 0), log = []\<rparr>))
   \<and> softmax_result (fst (detect_emotion_multimodal (PStr ''this is fine'') (PList [PFloat 0.25, PFloat 0.5])
      \<lparr>svc = init_service ''training/deployment'' None, rng = (\<lambda>i. 0), log = []\<rparr>))"
proof -
  let ?st = "\<lparr>svc = init_service ''training/deployment'' None, rng = (\<lambda>i. 0), log = []\<rparr>"
  let ?t = "PStr ''this is fine''"
  let ?a = "PList [PFloat 0.25, PFloat 0.5]"
  have l: "emotion_labels (svc ?st) = configured_labels" by (simp add: init_labels)
  have n: "py_len ?a = Inr 2" by simp
  from text_body_ok[OF l, of "''this is fine''"] obtain r1 where
    r1: "fst (text_body ?t ?st) = Inr r1" by fastforce
  from audio_body_ok[OF l n] obtain r2 where
    r2: "fst (audio_body ?a ?st) = Inr r2" by fastforce
  from multimodal_body_ok[OF l n, of "''this is fine''"] obtain r3 where
    r3: "fst (multimodal_body ?t ?a ?st) = Inr r3" by fastforce
  show ?thesis
    using detect_result_is_softmax[OF l, of ?t ?a] r1 r2 r3 by simp
qed

lemma handle_svc: "svc (snd (handle what body st)) = svc st"
  by (cases body) (auto simp: handle_def split: sum.splits)

lemma handle_Inl:
  "fst body = Inl e \<Longrightarrow>
   fst (handle what body st) = fallback e \<and>
   log (snd (handle what body st)) =
     log st @ [''Error in '' @ what @ '' emotion detection: '' @ str_of_error e]"
  by (cases body) (simp add: handle_def)

text \<open>
  Claim C3. Each of the three \<open>detect_\<close> methods returns a dictionary for every input and
  state (the model has no exceptional outcome for them) and leaves the service object as
  it was. When the \<open>try\<close> body raises \<open>e\<close>, the method returns the dictionary with
  emotion \<open>neutral\<close>, confidence 0.5 and the message of \<open>e\<close> under \<open>error\<close>, and appends
  one error line to the log.
\<close>

theorem detect_never_raises_fallback:
  "svc (snd (detect_emotion_from_text text st)) = svc st
   \<and> svc (snd (detect_emotion_from_audio audio st)) = svc st
   \<and> svc (snd (detect_emotion_multimodal text audio st)) = svc st
   \<and> (\<forall>e. fst (text_body text st) = Inl e \<longrightarrow>
         fst (detect_emotion_from_text text st) =
           PDict [(''emotion'', PStr ''neutral''), (''confidence'', PFloat 0.5),
                  (''error'', PStr (str_of_error e))]
         \<and> log (snd (detect_emotion_from_text text st)) =
             log st @ [''Error in text emotion detection: '' @ str_of_error e])
   \<and> (\<forall>e. fst (audio_body audio st) = Inl e \<longrightarrow>
         fst (detect_emotion_from_audio audio st) =
           PDict [(''emotion'', PStr ''neutral''), (''confidence'', PFloat 0.5),
                  (''error'', PStr (str_of_error e))]
         \<and> log (snd (detect_emotion_from_audio audio st)) =
             log st @ [''Error in audio emotion detection: '' @ str_of_error e])
   \<and> (\<forall>e. fst (multimodal_body text audio st) = Inl e \<longrightarrow>
         fst (detect_emotion_multimodal text audio st) =
           PDict [(''emotion'', PStr ''neutral''), (''confidence'', PFloat 0.5),
                  (''error'', PStr (str_of_error e))]
         \<and> log (snd (detect_emotion_multimodal text audio st)) =
             log st @ [''Error in multimodal emotion detection: '' @ str_of_error e])"
  using handle_Inl[of "text_body text st" _ "''text''" st]
        handle_Inl[of "audio_body audio st" _ "''audio''" st]
        handle_Inl[of "multimodal_body text audio st" _ "''multimodal''" st]
  by (simp add: detect_emotion_from_text_def detect_emotion_from_audio_def
        detect_emotion_multimodal_def handle_svc fallback_def)

theorem detect_never_raises_fallback_witness:
  "fst (detect_emotion_from_text (PInt 5) \<lparr>svc = init_service ''training/deployment'' None, rng = (\<lambda>i. 0), log = []\<rparr>) =
     PDict [(''emotion'', PStr ''neutral''), (''confidence'', PFloat 0.5),
            (''error'', PStr ''int object has no attribute split'')]
   \<and> fst (detect_emotion_from_audio PNone \<lparr>svc = init_service ''training/deployment'' None, rng = (\<lambda>i. 0), log = []\<rparr>) =
     PDict [(''emotion'', PStr ''neutral''), (''confidence'', PFloat 0.5),
            (''error'', PStr ''object of type NoneType has no len()'')]
   \<and> fst (detect_emotion_multimodal (PStr ''fine'') PNone \<lparr>svc = init_service ''training/deployment'' None, rng = (\<lambda>i. 0), log = []\<rparr>) =
     PDict [(''emotion'', PStr ''neutral''), (''confidence'', PFloat 0.5),
            (''error'', PStr ''object of type NoneType has no len()'')]"
proof -
  let ?st = "\<lparr>svc = init_service ''training/deployment'' None, rng = (\<lambda>i. 0), log = []\<rparr>"
  have t: "fst (text_body (PInt 5) ?st) = Inl (AttributeError ''int object has no attribute split'')"
    by (simp add: text_body_def try_body_def simulate_text_inference_def)
  have a: "fst (audio_body PNone ?st) = Inl (TypeError ''object of type NoneType has no len()'')"
    by (simp add: audio_body_def try_body_def audio_infer_fails)
  have "\<exists>sc g. simulate_text_inference (svc ?st) (PStr ''fine'') (rng ?st) = (Inr sc, g)"
    using text_inference_shape[of "svc ?st" "''fine''" "rng ?st"] by (auto simp: init_labels)
  then have m: "fst (multimodal_body (PStr ''fine'') PNone ?st) =
      Inl (TypeError ''object of type NoneType has no len()'')"
    by (auto simp: multimodal_body_def try_body_def simulate_multimodal_inference_def audio_infer_fails)
  show ?thesis
    using detect_never_raises_fallback[of "PInt 5" ?st PNone] 
          detect_never_raises_fallback[of "PStr ''fine''" ?st PNone] t a m
    by simp
qed

























section \<open>Properties of the bridge script\<close>

lemma main_exit_iff: "fst (main json_loads service argv g lg) = SystemExit n \<longleftrightarrow> length argv \<noteq> 3 \<and> n = 1"
  by (auto simp: main_def Let_def split: sum.splits option.splits prod.splits)

lemma main_status_iff:
  "exit_status (fst (main json_loads service argv g lg)) = 1 \<longleftrightarrow>
     length argv \<noteq> 3 \<or> isl (json_loads (argv ! 2))"
  by (auto simp: main_def Let_def split: sum.splits option.splits prod.splits)

text \<open>
  Claim C10. With the service not available, \<open>main\<close> called with three entries in
  \<open>sys.argv\<close> (the script, the mode, the payload) and a payload that parses prints exactly
  the fixed fallback dictionary for that mode and returns, touching neither the generator
  nor the log; the dictionary has emotion \<open>neutral\<close>, confidence 0.5, scores over the
  five labels that sum to one, and \<open>model_used\<close> the mode followed by \<open>_fallback\<close>.
  Whether or not the service is available, \<open>main\<close> calls \<open>sys.exit\<close> exactly when
  \<open>sys.argv\<close> does not have three entries, and then with status 1; the script ends with
  status 1 exactly then or when the payload does not parse, which \<open>main\<close> leaves uncaught.
\<close>

theorem main_fallback_when_unavailable:
  "(length argv = 3 \<and> json_loads (argv ! 2) = Inr data \<longrightarrow>
      main json_loads None argv g lg = (Returned, [fallback_result (argv ! 1)], g, lg))
   \<and> py_get (fallback_result mode) ''emotion'' = Some (PStr ''neutral'')
   \<and> py_get (fallback_result mode) ''confidence'' = Some (PFloat 0.5)
   \<and> py_get (fallback_result mode) ''model_used'' = Some (PStr (mode @ ''_fallback''))
   \<and> map fst (dict_items (the (py_get (fallback_result mode) ''all_scores'')))
       = [''neutral'', ''happiness'', ''sadness'', ''anger'', ''love'']
   \<and> sum_list (map (float_of \<circ> snd) (dict_items (the (py_get (fallback_result mode) ''all_scores'')))) = 1
   \<and> (fst (main json_loads service argv g lg) = SystemExit n \<longleftrightarrow> length argv \<noteq> 3 \<and> n = 1)
   \<and> (exit_status (fst (main json_loads service argv g lg)) = 1 \<longleftrightarrow>
         length argv \<noteq> 3 \<or> isl (json_loads (argv ! 2)))"
  by (simp add: main_exit_iff main_status_iff) (simp add: main_def fallback_result_def)

theorem main_fallback_when_unavailable_witness:
  "main (\<lambda>s. if s = ''{}'' then Inr (PDict []) else Inl (JSONDecodeError ''Expecting value''))
        None [''emotion_service_wrapper.py'', ''text'', ''{}''] (\<lambda>i. 0) []
     = (Returned, [fallback_result ''text''], (\<lambda>i. 0), [])
   \<and> fst (main (\<lambda>s. if s = ''{}'' then Inr (PDict []) else Inl (JSONDecodeError ''Expecting value''))
        None [''emotion_service_wrapper.py'', ''text''] (\<lambda>i. 0) []) = SystemExit 1"
  using main_fallback_when_unavailable
          [of "[''emotion_service_wrapper.py'', ''text'', ''{}'']"
              "\<lambda>s. if s = ''{}'' then Inr (PDict []) else Inl (JSONDecodeError ''Expecting value'')"
              "PDict []" "\<lambda>i. 0" "[]"]
        main_fallback_when_unavailable
          [of "[''emotion_service_wrapper.py'', ''text'']"
              "\<lambda>s. if s = ''{}'' then Inr (PDict []) else Inl (JSONDecodeError ''Expecting value'')"
              _ "\<lambda>i. 0" "[]" _ None 1]
  by simp

section \<open>Properties of the training loop\<close>
















section \<open>Properties of the production model wrapper\<close>

lemma export_to_onnx_fields:
  "original_model (export_to_onnx env w) = original_model w
   \<and> optimized_model (export_to_onnx env w) = optimized_model w
   \<and> quantized_model (export_to_onnx env w) = quantized_model w
   \<and> prediction_cache (export_to_onnx env w) = prediction_cache w
   \<and> inference_times (export_to_onnx env w) = inference_times w
   \<and> model_type (export_to_onnx env w) = model_type w"
  by (simp add: export_to_onnx_def Let_def split: option.splits prod.splits sum.splits)

lemma export_to_onnx_session:
  "onnx_session (export_to_onnx env w) =
     (if OPTIMIZATION_AVAILABLE env then
        (case dummy_for (model_type w) of
           None \<Rightarrow> onnx_session w
         | Some (dummy, names) \<Rightarrow>
             (case onnx_export env (original_model w) dummy
                     (''models/'' @ model_type w @ ''_optimized.onnx'') names of
                Inl e \<Rightarrow> onnx_session w
              | Inr graph \<Rightarrow>
                  (case inference_session env (''models/'' @ model_type w @ ''_optimized.onnx'') graph of
                     Inl e \<Rightarrow> onnx_session w
                   | Inr session \<Rightarrow> Some session)))
      else onnx_session w)"
  by (simp add: export_to_onnx_def Let_def split: option.splits prod.splits sum.splits)

text \<open>
  Claim C7, as the code has it. At \<open>light\<close>, \<open>optimize_model\<close> only compiles to
  TorchScript, and a failure there leaves the method as an exception. At \<open>medium\<close> and
  \<open>aggressive\<close> no exception leaves the method: when TorchScript or the quantization
  raises, \<open>optimized_model\<close> becomes the original model (in evaluation mode) and no
  session is loaded. When the optimization libraries were not imported, both levels stop
  after TorchScript. When they were, \<open>medium\<close> adds the dynamic int8 quantization of
  Linear, LSTM and Conv1d modules, and \<open>aggressive\<close> after it calls \<open>_export_to_onnx\<close>,
  which for the three known model types exports the original model and loads a session,
  and on any failure of the export or the load leaves the wrapper as it is, with
  \<open>optimized_model\<close> still the TorchScript model.
\<close>

theorem optimize_model_levels:
  fixes env :: "('m, 'o, 'g, 'i, 'r) torch_env" and w :: "('m, 'o, 'r) wrapper"
  defines "em \<equiv> eval_mode env (original_model w)"
  defines "w0 \<equiv> w\<lparr>original_model := em\<rparr>"
  shows
   "(\<forall>scripted. jit_script env em = Inr scripted \<longrightarrow>
        optimize_model env ''light'' w = (None, w0\<lparr>optimized_model := Some scripted\<rparr>))
    \<and> (\<forall>e. jit_script env em = Inl e \<longrightarrow> optimize_model env ''light'' w = (Some e, w0))
    \<and> fst (optimize_model env ''medium'' w) = None
    \<and> fst (optimize_model env ''aggressive'' w) = None
    \<and> (\<forall>level. (level = ''medium'' \<or> level = ''aggressive'') \<and>
          (isl (jit_script env em) \<or>
           OPTIMIZATION_AVAILABLE env \<and> isl (quantize_dynamic env em {Linear, LSTM, Conv1d} QInt8)) \<longrightarrow>
          optimized_model (snd (optimize_model env level w)) = Some em \<and>
          onnx_session (snd (optimize_model env level w)) = onnx_session w)
    \<and> (\<forall>level scripted. (level = ''medium'' \<or> level = ''aggressive'') \<and>
          jit_script env em = Inr scripted \<and> \<not> OPTIMIZATION_AVAILABLE env \<longrightarrow>
          optimize_model env level w = (None, w0\<lparr>optimized_model := Some scripted\<rparr>))
    \<and> (\<forall>scripted quantized. jit_script env em = Inr scripted \<and> OPTIMIZATION_AVAILABLE env \<and>
          quantize_dynamic env em {Linear, LSTM, Conv1d} QInt8 = Inr quantized \<longrightarrow>
          optimize_model env ''medium'' w =
            (None, w0\<lparr>optimized_model := Some scripted, quantized_model := Some quantized\<rparr>) \<and>
          optimize_model env ''aggressive'' w =
            (None, export_to_onnx env
                     (w0\<lparr>optimized_model := Some scripted, quantized_model := Some quantized\<rparr>)) \<and>
          optimized_model (snd (optimize_model env ''aggressive'' w)) = Some scripted \<and>
          quantized_model (snd (optimize_model env ''aggressive'' w)) = Some quantized \<and>
          onnx_session (snd (optimize_model env ''aggressive'' w)) =
            (case dummy_for (model_type w) of
               None \<Rightarrow> onnx_session w
             | Some (dummy, names) \<Rightarrow>
                 (case onnx_export env em dummy
                         (''models/'' @ model_type w @ ''_optimized.onnx'') names of
                    Inl e \<Rightarrow> onnx_session w
                  | Inr graph \<Rightarrow>
                      (case inference_session env
                              (''models/'' @ model_type w @ ''_optimized.onnx'') graph of
                         Inl e \<Rightarrow> onnx_session w
                       | Inr session \<Rightarrow> Some session))))"
proof (intro conjI allI impI)
  fix scripted assume "jit_script env em = Inr scripted"
  then show "optimize_model env ''light'' w = (None, w0\<lparr>optimized_model := Some scripted\<rparr>)"
    by (simp add: optimize_model_def em_def w0_def Let_def)
next
  fix e assume "jit_script env em = Inl e"
  then show "optimize_model env ''light'' w = (Some e, w0)"
    by (simp add: optimize_model_def em_def w0_def Let_def)
next
  show "fst (optimize_model env ''medium'' w) = None"
    by (simp add: optimize_model_def Let_def split: sum.splits)
  show "fst (optimize_model env ''aggressive'' w) = None"
    by (simp add: optimize_model_def Let_def split: sum.splits)
next
  fix level
  assume a: "(level = ''medium'' \<or> level = ''aggressive'') \<and>
          (isl (jit_script env em) \<or>
           OPTIMIZATION_AVAILABLE env \<and> isl (quantize_dynamic env em {Linear, LSTM, Conv1d} QInt8))"
  then show "optimized_model (snd (optimize_model env level w)) = Some em"
    by (auto simp: optimize_model_def em_def Let_def isl_def split: sum.splits)
  from a show "onnx_session (snd (optimize_model env level w)) = onnx_session w"
    by (auto simp: optimize_model_def em_def Let_def isl_def split: sum.splits)
next
  fix level scripted
  assume "(level = ''medium'' \<or> level = ''aggressive'') \<and>
          jit_script env em = Inr scripted \<and> \<not> OPTIMIZATION_AVAILABLE env"
  then show "optimize_model env level w = (None, w0\<lparr>optimized_model := Some scripted\<rparr>)"
    by (auto simp: optimize_model_def em_def w0_def Let_def)
next
  fix scripted quantized
  assume a: "jit_script env em = Inr scripted \<and> OPTIMIZATION_AVAILABLE env \<and>
          quantize_dynamic env em {Linear, LSTM, Conv1d} QInt8 = Inr quantized"
  then show "optimize_model env ''medium'' w =
            (None, w0\<lparr>optimized_model := Some scripted, quantized_model := Some quantized\<rparr>)"
    by (simp add: optimize_model_def em_def w0_def Let_def)
  from a show agg: "optimize_model env ''aggressive'' w =
            (None, export_to_onnx env
                     (w0\<lparr>optimized_model := Some scripted, quantized_model := Some quantized\<rparr>))"
    by (simp add: optimize_model_def em_def w0_def Let_def)
  show "optimized_model (snd (optimize_model env ''aggressive'' w)) = Some scripted"
    unfolding agg by (simp add: export_to_onnx_fields)
  show "quantized_model (snd (optimize_model env ''aggressive'' w)) = Some quantized"
    unfolding agg by (simp add: export_to_onnx_fields)
  show "onnx_session (snd (optimize_model env ''aggressive'' w)) =
            (case dummy_for (model_type w) of
               None \<Rightarrow> onnx_session w
             | Some (dummy, names) \<Rightarrow>
                 (case onnx_export env em dummy
                         (''models/'' @ model_type w @ ''_optimized.onnx'') names of
                    Inl e \<Rightarrow> onnx_session w
                  | Inr graph \<Rightarrow>
                      (case inference_session env
                              (''models/'' @ model_type w @ ''_optimized.onnx'') graph of
                         Inl e \<Rightarrow> onnx_session w
                       | Inr session \<Rightarrow> Some session)))"
    unfolding agg using a
    by (simp add: export_to_onnx_session w0_def split: option.splits prod.splits sum.splits)
qed

theorem optimize_model_levels_witness:
  "optimize_model (example_env True True (\<lambda>s. 1)) ''light'' (init_wrapper 7 ''audio_emotion'')
     = (None, (init_wrapper 7 ''audio_emotion'')\<lparr>optimized_model := Some 107\<rparr>)
   \<and> optimize_model (example_env True True (\<lambda>s. 1)) ''medium'' (init_wrapper 7 ''audio_emotion'')
     = (None, (init_wrapper 7 ''audio_emotion'')\<lparr>optimized_model := Some 107, quantized_model := Some 207\<rparr>)
   \<and> onnx_session (snd (optimize_model (example_env True True (\<lambda>s. 1)) ''aggressive''
                            (init_wrapper 7 ''audio_emotion'')))
     = Some ''models/audio_emotion_optimized.onnx''"
proof -
  let ?env = "example_env True True (\<lambda>s. 1)"
  let ?w = "init_wrapper 7 ''audio_emotion'' :: (nat, string, nat) wrapper"
  let ?m = "eval_mode ?env (original_model ?w)"
  have j: "jit_script ?env ?m = Inr 107"
    and q: "quantize_dynamic ?env ?m {Linear, LSTM, Conv1d} QInt8 = Inr 207"
    and a: "OPTIMIZATION_AVAILABLE ?env"
    and m: "?w\<lparr>original_model := ?m\<rparr> = ?w"
    by (simp_all add: example_env_def init_wrapper_def)
  have s: "(case dummy_for (model_type ?w) of
               None \<Rightarrow> onnx_session ?w
             | Some (dummy, names) \<Rightarrow>
                 (case onnx_export ?env ?m dummy
                         (''models/'' @ model_type ?w @ ''_optimized.onnx'') names of
                    Inl e \<Rightarrow> onnx_session ?w
                  | Inr graph \<Rightarrow>
                      (case inference_session ?env
                              (''models/'' @ model_type ?w @ ''_optimized.onnx'') graph of
                         Inl e \<Rightarrow> onnx_session ?w
                       | Inr session \<Rightarrow> Some session)))
           = Some ''models/audio_emotion_optimized.onnx''"
    by (simp add: example_env_def init_wrapper_def dummy_for_def)
  note T = optimize_model_levels[of ?env ?w, unfolded m]
  note light = T[THEN conjunct1, rule_format, OF j]
  note both = T[THEN conjunct2, THEN conjunct2, THEN conjunct2, THEN conjunct2, THEN conjunct2,
                THEN conjunct2, rule_format, OF conjI[OF j conjI[OF a q]]]
  show ?thesis
    using light both[THEN conjunct1]
      both[THEN conjunct2, THEN conjunct2, THEN conjunct2, THEN conjunct2, unfolded s]
    by (intro conjI)
qed

text \<open>
  Claim C7 as stated fails twice: without the optimization libraries \<open>medium\<close> does not
  quantize, and a failing ONNX export at \<open>aggressive\<close> is caught without the fall back
  to the original model.
\<close>

theorem optimize_model_counterexample:
  "quantized_model (snd (optimize_model (example_env False True (\<lambda>s. 1)) ''medium''
                           (init_wrapper 7 ''text_emotion''))) = None
   \<and> optimized_model (snd (optimize_model (example_env True False (\<lambda>s. 1)) ''aggressive''
                           (init_wrapper 7 ''text_emotion''))) = Some 107
   \<and> original_model (snd (optimize_model (example_env True False (\<lambda>s. 1)) ''aggressive''
                           (init_wrapper 7 ''text_emotion''))) = 7
   \<and> onnx_session (snd (optimize_model (example_env True False (\<lambda>s. 1)) ''aggressive''
                           (init_wrapper 7 ''text_emotion''))) = None"
  by (simp add: optimize_model_def export_to_onnx_def example_env_def init_wrapper_def
        dummy_for_def Let_def)

text \<open>A second call with the same input is a cache hit whenever the key is not 0.\<close>

lemma predict_hit:
  "map_of (prediction_cache w) (py_hash env (py_str env x)) = Some r \<Longrightarrow>
   predict env x True dt w = (Inr r, w)"
  by (simp add: predict_def Let_def)

lemma predict_cache_hit_nonzero:
  assumes key: "py_hash env (py_str env x) \<noteq> 0"
    and first: "predict env x True dt w = (Inr r, w1)"
  shows "predict env x True dt' w1 = (Inr r, w1)"
proof (cases "map_of (prediction_cache w) (py_hash env (py_str env x))")
  case (Some c)
  then have "predict env x True dt w = (Inr c, w)" by (rule predict_hit)
  with first have "c = r" "w1 = w" by simp_all
  then show ?thesis using Some by (simp add: predict_hit)
next
  case None
  with first key have "map_of (prediction_cache w1) (py_hash env (py_str env x)) = Some r"
    by (auto simp: predict_def Let_def update_conv' split: option.splits sum.splits)
  then show ?thesis by (rule predict_hit)
qed


section \<open>Properties of the multimodal model\<close>






lemma example_forward:
  "multimodal_forward example_multimodal_model [[1, 2], [3, 4]] [[1, 1], [1, 1]] [[0.5, -1], [2, 0.25]]
     = Inr [[7 / 2], [37 / 4]]
   \<and> audio_forward example_audio_model [[0.5, -1], [2, 0.25]] = Inr [[3 / 2, 1], [3, 5 / 4]]
   \<and> text_forward example_text_model [[1, 2], [3, 4]] [[1, 1], [1, 1]] = [[2, 4], [6, 8]]"
  by (simp add: multimodal_forward_def audio_forward_def text_forward_def
        example_multimodal_model_def example_audio_model_def example_text_model_def
        unsqueeze1_def relu_def permute021_def last_layer_def cat1_def sequential_def Let_def)

section \<open>Properties of the data processor\<close>
















lemma example_balanced:
  "create_balanced_dataset (\<lambda>i. i)
      [\<lparr>row_text = ''so glad today'', row_emotion = ''happiness''\<rparr>,
       \<lparr>row_text = ''feeling low today'', row_emotion = ''sadness''\<rparr>,
       \<lparr>row_text = ''what a day'', row_emotion = ''happiness''\<rparr>,
       \<lparr>row_text = ''glad you came'', row_emotion = ''happiness''\<rparr>] 2
   = Inr [\<lparr>row_text = ''so glad today'', row_emotion = ''happiness''\<rparr>,
          \<lparr>row_text = ''feeling low today'', row_emotion = ''sadness''\<rparr>,
          \<lparr>row_text = ''glad you came'', row_emotion = ''happiness''\<rparr>,
          \<lparr>row_text = ''feeling low today'', row_emotion = ''sadness''\<rparr>]"
  by code_simp

















end
